theory Spec2Isabelle
  imports Main "HOL-Library.Word"
begin

unbundle bit_operations_syntax

section \<open>The connection manager of the node (conman.cpp, connection.cpp)\<close>

text \<open>
  The manager \<open>UV_Helper\<close> runs on one loop thread. It owns the listening socket, the
  wakeup handle, the set \<open>tcpConnections\<close> and the queue \<open>events\<close>. The model is
  sequential: every function below is one piece of work of the loop thread (an event
  handler of the library, or the body of a queued closure), taking the manager's state
  and returning the new one. What the operating system, the allocator and the clock
  answer is read from an environment \<open>env\<close>; the calls made to collaborators
  (\<open>PeerServer\<close>, \<open>on_close\<close>, the socket library) are appended to \<open>trace\<close>.
\<close>

subsection \<open>Byte order\<close>

datatype endian = Little | Big

text \<open>The bytes of a value in network order (most significant byte first), as the
  operating system stores \<open>sin_port\<close> and \<open>sin_addr.s_addr\<close> in a \<open>sockaddr_in\<close>.\<close>

fun network_bytes16 :: "16 word \<Rightarrow> 8 word list" where
  "network_bytes16 x = [ucast (drop_bit 8 x), ucast x]"

fun network_bytes32 :: "32 word \<Rightarrow> 8 word list" where
  "network_bytes32 x =
     [ucast (drop_bit 24 x), ucast (drop_bit 16 x), ucast (drop_bit 8 x), ucast x]"

fun load_be16 :: "8 word list \<Rightarrow> 16 word" where
  "load_be16 bs = foldl (\<lambda>acc b. push_bit 8 acc OR ucast b) 0 bs"

fun load_be32 :: "8 word list \<Rightarrow> 32 word" where
  "load_be32 bs = foldl (\<lambda>acc b. push_bit 8 acc OR ucast b) 0 bs"

text \<open>What a host of the given byte order reads when it loads an integer field from
  memory: a little-endian host takes the first byte as the least significant one.\<close>

definition read_u16 :: "endian \<Rightarrow> 8 word list \<Rightarrow> 16 word" where
  "read_u16 e bs = (case e of Big \<Rightarrow> load_be16 bs | Little \<Rightarrow> load_be16 (rev bs))"

definition read_u32 :: "endian \<Rightarrow> 8 word list \<Rightarrow> 32 word" where
  "read_u32 e bs = (case e of Big \<Rightarrow> load_be32 bs | Little \<Rightarrow> load_be32 (rev bs))"

definition bswap16 :: "16 word \<Rightarrow> 16 word" where
  "bswap16 x = push_bit 8 x OR drop_bit 8 x"

definition bswap32 :: "32 word \<Rightarrow> 32 word" where
  "bswap32 x = push_bit 24 (x AND 0xff) OR push_bit 8 (x AND 0xff00)
             OR (drop_bit 8 x AND 0xff00) OR drop_bit 24 x"

text \<open>Modelled from the spec: \<open>ntoh32\<close> is defined outside conman.cpp and
  connection.cpp. By its name and its use on \<open>s_addr\<close> it converts a 32-bit value from
  network to host byte order: the identity on a big-endian host, a swap of the four
  bytes on a little-endian one.\<close>

definition ntoh32 :: "endian \<Rightarrow> 32 word \<Rightarrow> 32 word" where
  "ntoh32 e x = (case e of Big \<Rightarrow> x | Little \<Rightarrow> bswap32 x)"

subsection \<open>Data\<close>

type_synonym handle_id = nat
type_synonym conn_ptr = nat

record EndpointAddress =
  ip :: "32 word"
  port :: "16 word"

text \<open>The peer of a socket as the operating system knows it (numbers, not bytes).\<close>

record peername =
  pn_family :: nat
  pn_ip :: "32 word"
  pn_port :: "16 word"

text \<open>The fields of \<open>sockaddr_storage\<close> / \<open>sockaddr_in\<close> as the host reads them.\<close>

record sockaddr_storage =
  ss_family :: nat
  sin_port :: "16 word"
  s_addr :: "32 word"

definition AF_INET :: nat where
  "AF_INET = 2"

definition UV_EOF :: int where
  "UV_EOF = - 4095"

text \<open>
  The environment. \<open>NDEBUG\<close> says whether \<open>assert\<close> is compiled out. The answers of
  calls that may differ from one call to the next are indexed by the number of such calls
  made so far (\<open>env_calls\<close> of the state). \<open>isolated\<close> is \<open>config().node.isolated\<close>;
  \<open>MAXBUFFER\<close> and \<open>EBUFFERFULL\<close> are constants declared outside the two source files.
\<close>

record os =
  NDEBUG :: bool
  host_endian :: endian
  isolated :: bool
  MAXBUFFER :: nat
  EBUFFERFULL :: int
  uv_tcp_getpeername :: "handle_id \<Rightarrow> int \<times> peername"
  uv_accept :: "nat \<Rightarrow> int"
  uv_tcp_connect :: "nat \<Rightarrow> EndpointAddress \<Rightarrow> int"
  uv_read_start :: "nat \<Rightarrow> int"
  uv_write :: "nat \<Rightarrow> int"
  uv_write_queue_size :: "nat \<Rightarrow> nat"
  make_shared :: "nat \<Rightarrow> conn_ptr"
  timestamp_now :: "nat \<Rightarrow> nat"

text \<open>A \<open>uvw::tcp_handle\<close>: the closing flag of the library (\<open>closing()\<close>), the user
  data pointer (\<open>data(...)\<close>), and the iterator captured by the \<open>close_event\<close> handler
  when \<open>insert_connection\<close> registered the handlers (\<open>None\<close>: no handler registered).
  An iterator of the set is identified by the element of the node it points to.\<close>

record tcp_handle =
  h_closing :: bool
  h_data :: "conn_ptr option"
  h_close_iter :: "conn_ptr option"

record TCPConnection =
  peer :: EndpointAddress
  inbound :: bool
  tcpHandle :: handle_id
  created_at :: nat

text \<open>The closures this code passes to \<open>async_call\<close>, and closures of other
  subsystems (\<open>ExternalFunc\<close>), which the model only records when they are called.\<close>

datatype deferred =
    StartReadInternal conn_ptr
  | CloseInternal conn_ptr int
  | AsyncSendBody conn_ptr "8 word list" nat
  | ExternalFunc nat

datatype event =
    GetPeers nat
  | Connect EndpointAddress
  | Inspect nat
  | DeferFunc deferred

datatype effect =
    OnFailedConnect EndpointAddress int
  | Authenticate conn_ptr
  | OnClose conn_ptr int
  | OnConnected conn_ptr
  | OnMessage conn_ptr "8 word list"
  | ConnectionLog conn_ptr int
  | UvClose handle_id
  | TcpConnect handle_id EndpointAddress
  | TcpAccept handle_id
  | TcpRead handle_id
  | TcpWrite handle_id nat
  | WakeupClose
  | ListenerClose
  | GetPeersCb nat "(EndpointAddress \<times> nat) list"
  | InspectCb nat
  | DeferCb nat

datatype error =
    Deadlock
  | AssertFailed
  | UninitialisedRead
  | InvalidIterator
  | NullPointer

text \<open>
  The state of the manager. \<open>tcpConnections\<close> is the set in iteration order.
  Modelled from the spec: its declaration is in conman.hpp, outside the source files; the
  spec describes a container of unique connections with erase through a stored position.
  \<open>insert(con)\<close> with one argument and \<open>begin()\<close> are the interface of \<open>std::set\<close>,
  which orders shared pointers by address, so the list is kept ascending by address and
  without duplicates. Where the allocator hands out ascending addresses, as in the
  concrete inputs below, this is the order of insertion as well. \<open>heap\<close> holds the
  \<open>TCPConnection\<close> objects by address, \<open>handles\<close> the socket handles of the loop.
\<close>

record UV_Helper =
  closing :: bool
  wakeup_closed :: bool
  listener_closed :: bool
  tcpConnections :: "conn_ptr list"
  events :: "event list"
  mutex_locked :: bool
  wakeup_sent :: bool
  heap :: "conn_ptr \<Rightarrow> TCPConnection"
  handles :: "handle_id \<Rightarrow> tcp_handle"
  next_handle :: nat
  env_calls :: nat
  trace :: "effect list"

subsection \<open>Small steps\<close>

definition emit :: "effect \<Rightarrow> UV_Helper \<Rightarrow> UV_Helper" where
  "emit e s = s\<lparr>trace := trace s @ [e]\<rparr>"

definition tick :: "UV_Helper \<Rightarrow> UV_Helper" where
  "tick s = s\<lparr>env_calls := Suc (env_calls s)\<rparr>"

text \<open>\<open>loop.resource<uvw::tcp_handle>()\<close>: a new handle.\<close>

definition resource_tcp_handle :: "UV_Helper \<Rightarrow> handle_id \<times> UV_Helper" where
  "resource_tcp_handle s =
     (next_handle s,
      s\<lparr>handles := (handles s)(next_handle s :=
            \<lparr>h_closing = False, h_data = None, h_close_iter = None\<rparr>),
        next_handle := Suc (next_handle s)\<rparr>)"

text \<open>\<open>tcp_handle::close()\<close> of the library: closes the handle unless it is closing.\<close>

definition handle_close :: "handle_id \<Rightarrow> UV_Helper \<Rightarrow> UV_Helper" where
  "handle_close h s =
     (if h_closing (handles s h) then s
      else emit (UvClose h)
             (s\<lparr>handles := (handles s)(h := (handles s h)\<lparr>h_closing := True\<rparr>)\<rparr>))"

text \<open>\<open>std::set::insert\<close> and \<open>erase(iterator)\<close>. Erasing through an iterator whose node
  is gone is undefined in C++; the model returns \<open>InvalidIterator\<close>.\<close>

definition set_insert :: "conn_ptr \<Rightarrow> conn_ptr list \<Rightarrow> conn_ptr list" where
  "set_insert x xs = (if x \<in> set xs then xs else insort x xs)"

definition set_erase :: "conn_ptr \<Rightarrow> conn_ptr list \<Rightarrow> error + conn_ptr list" where
  "set_erase it xs = (if it \<in> set xs then Inr (remove1 it xs) else Inl InvalidIterator)"

subsection \<open>conman.cpp: get_ipv4_endpoint\<close>

text \<open>What \<open>uv_tcp_getpeername\<close> writes into the storage, as the host reads it back.\<close>

definition fill_storage :: "endian \<Rightarrow> peername \<Rightarrow> sockaddr_storage" where
  "fill_storage e pn =
     \<lparr>ss_family = pn_family pn,
      sin_port = read_u16 e (network_bytes16 (pn_port pn)),
      s_addr = read_u32 e (network_bytes32 (pn_ip pn))\<rparr>"

text \<open>
  The call of \<open>uv_tcp_getpeername\<close> is the argument of \<open>assert\<close>. With \<open>NDEBUG\<close> it is
  not evaluated, the storage stays uninitialised and the read of \<open>ss_family\<close> is
  undefined (\<open>UninitialisedRead\<close>); without \<open>NDEBUG\<close> a non-zero answer aborts
  (\<open>AssertFailed\<close>).
\<close>

definition get_ipv4_endpoint :: "os \<Rightarrow> handle_id \<Rightarrow> error + EndpointAddress option" where
  "get_ipv4_endpoint env h =
     (if NDEBUG env then Inl UninitialisedRead
      else
        (case uv_tcp_getpeername env h of
           (rc, pn) \<Rightarrow>
             if rc \<noteq> 0 then Inl AssertFailed
             else
               (let storage = fill_storage (host_endian env) pn in
                if ss_family storage \<noteq> AF_INET then Inr None
                else Inr (Some \<lparr>ip = ntoh32 (host_endian env) (s_addr storage),
                                 port = sin_port storage\<rparr>))))"

subsection \<open>connection.cpp\<close>

text \<open>Modelled from the spec: \<open>async_call\<close> and the enqueue behind it are declared in
  conman.hpp, which is not among the source files. The spec: enqueue appends under a
  short-held lock and signals the wakeup notifier unconditionally. The mutex is not
  recursive: an enqueue made by the loop thread while the loop thread holds the mutex
  never returns (\<open>Deadlock\<close>).\<close>

definition enqueue :: "event \<Rightarrow> UV_Helper \<Rightarrow> error + UV_Helper" where
  "enqueue e s =
     (if mutex_locked s then Inl Deadlock
      else Inr (s\<lparr>events := events s @ [e], wakeup_sent := True\<rparr>))"

definition async_call :: "deferred \<Rightarrow> UV_Helper \<Rightarrow> error + UV_Helper" where
  "async_call f s = enqueue (DeferFunc f) s"

definition start_read :: "conn_ptr \<Rightarrow> UV_Helper \<Rightarrow> error + UV_Helper" where
  "start_read c s = async_call (StartReadInternal c) s"

definition close :: "conn_ptr \<Rightarrow> int \<Rightarrow> UV_Helper \<Rightarrow> error + UV_Helper" where
  "close c errcode s = async_call (CloseInternal c errcode) s"

definition close_internal :: "conn_ptr \<Rightarrow> int \<Rightarrow> UV_Helper \<Rightarrow> UV_Helper" where
  "close_internal c errcode s =
     (let h = tcpHandle (heap s c) in
      if h_closing (handles s h) then s
      else emit (OnClose c errcode) (emit (ConnectionLog c errcode) (handle_close h s)))"

definition start_read_internal :: "os \<Rightarrow> conn_ptr \<Rightarrow> UV_Helper \<Rightarrow> UV_Helper" where
  "start_read_internal env c s =
     (let h = tcpHandle (heap s c) in
      if h_closing (handles s h) then s
      else
        (let e = uv_read_start env (env_calls s);
             s1 = emit (TcpRead h) (tick s)
         in if e \<noteq> 0 then close_internal c e s1 else emit (OnConnected c) s1))"

definition async_send :: "conn_ptr \<Rightarrow> 8 word list \<Rightarrow> nat \<Rightarrow> UV_Helper \<Rightarrow> error + UV_Helper" where
  "async_send c data sz s = async_call (AsyncSendBody c data sz) s"

text \<open>The body of the closure of \<open>async_send\<close>, run on the loop thread.\<close>

definition async_send_body :: "os \<Rightarrow> conn_ptr \<Rightarrow> 8 word list \<Rightarrow> nat \<Rightarrow> UV_Helper \<Rightarrow> UV_Helper" where
  "async_send_body env c data sz s =
     (let h = tcpHandle (heap s c) in
      if \<not> h_closing (handles s h) then
        (let rc = uv_write env (env_calls s);
             s1 = emit (TcpWrite h sz) (tick s)
         in if rc \<noteq> 0 \<or> uv_write_queue_size env (env_calls s) > MAXBUFFER env
            then close_internal c (EBUFFERFULL env) s1
            else s1)
      else s)"

subsection \<open>conman.cpp: insert_connection and the handlers it registers\<close>

text \<open>\<open>iter\<close> is \<open>tcpConnections.begin()\<close> after the insertion: the first element in
  iteration order (the list is not empty there).\<close>

definition insert_connection ::
  "os \<Rightarrow> handle_id \<Rightarrow> EndpointAddress \<Rightarrow> bool \<Rightarrow> UV_Helper \<Rightarrow> conn_ptr \<times> UV_Helper" where
  "insert_connection env tcpH p inb s =
     (let con = make_shared env (env_calls s);
          s1 = tick (s\<lparr>heap := (heap s)(con :=
                 \<lparr>peer = p, inbound = inb, tcpHandle = tcpH,
                  created_at = timestamp_now env (env_calls s)\<rparr>)\<rparr>);
          s2 = s1\<lparr>tcpConnections := set_insert con (tcpConnections s1)\<rparr>;
          iter = hd (tcpConnections s2);
          s3 = s2\<lparr>handles := (handles s2)(tcpH :=
                 (handles s2 tcpH)\<lparr>h_data := Some con, h_close_iter := Some iter\<rparr>)\<rparr>
      in (con, s3))"

text \<open>\<open>close_event\<close>: the handle has finished closing.\<close>

definition on_close_event :: "handle_id \<Rightarrow> UV_Helper \<Rightarrow> error + UV_Helper" where
  "on_close_event h s =
     (case h_close_iter (handles s h) of
        None \<Rightarrow> Inr s
      | Some iter \<Rightarrow>
          (let s1 = s\<lparr>handles := (handles s)(h := (handles s h)\<lparr>h_data := None\<rparr>)\<rparr> in
           case set_erase iter (tcpConnections s1) of
             Inl e \<Rightarrow> Inl e
           | Inr cs \<Rightarrow> Inr (s1\<lparr>tcpConnections := cs\<rparr>)))"

definition on_end_event :: "handle_id \<Rightarrow> UV_Helper \<Rightarrow> error + UV_Helper" where
  "on_end_event h s =
     (case h_close_iter (handles s h) of
        None \<Rightarrow> Inr s
      | Some _ \<Rightarrow>
          (case h_data (handles s h) of
             None \<Rightarrow> Inl NullPointer
           | Some c \<Rightarrow> Inr (close_internal c UV_EOF s)))"

definition on_error_event :: "handle_id \<Rightarrow> int \<Rightarrow> UV_Helper \<Rightarrow> error + UV_Helper" where
  "on_error_event h code s =
     (case h_close_iter (handles s h) of
        None \<Rightarrow> Inr s
      | Some _ \<Rightarrow>
          (case h_data (handles s h) of
             None \<Rightarrow> Inl NullPointer
           | Some c \<Rightarrow> Inr (close_internal c code s)))"

definition on_shutdown_event :: "handle_id \<Rightarrow> UV_Helper \<Rightarrow> UV_Helper" where
  "on_shutdown_event h s =
     (case h_close_iter (handles s h) of None \<Rightarrow> s | Some _ \<Rightarrow> handle_close h s)"

definition on_data_event :: "handle_id \<Rightarrow> 8 word list \<Rightarrow> UV_Helper \<Rightarrow> error + UV_Helper" where
  "on_data_event h bytes s =
     (case h_close_iter (handles s h) of
        None \<Rightarrow> Inr s
      | Some _ \<Rightarrow>
          (case h_data (handles s h) of
             None \<Rightarrow> Inl NullPointer
           | Some c \<Rightarrow> Inr (emit (OnMessage c bytes) s)))"

subsection \<open>conman.cpp: the listener, connect, shutdown and the queue\<close>

text \<open>The handler of \<open>listen_event\<close>. \<open>server.accept\<close> is the argument of \<open>assert\<close>, so
  it runs only without \<open>NDEBUG\<close>.\<close>

definition on_listen_event :: "os \<Rightarrow> UV_Helper \<Rightarrow> error + UV_Helper" where
  "on_listen_event env s =
     (if isolated env then Inr s
      else
        (case resource_tcp_handle s of
           (tcpH, s1) \<Rightarrow>
             (case (if NDEBUG env then Inr s1
                    else if uv_accept env (env_calls s1) = 0
                         then Inr (emit (TcpAccept tcpH) (tick s1))
                         else Inl AssertFailed) of
                Inl e \<Rightarrow> Inl e
              | Inr s2 \<Rightarrow>
                  (case get_ipv4_endpoint env tcpH of
                     Inl e \<Rightarrow> Inl e
                   | Inr None \<Rightarrow> Inr s2
                   | Inr (Some endpoint) \<Rightarrow>
                       (case insert_connection env tcpH endpoint True s2 of
                          (connection, s3) \<Rightarrow> Inr (emit (Authenticate connection) s3))))))"

definition connect :: "os \<Rightarrow> EndpointAddress \<Rightarrow> UV_Helper \<Rightarrow> error + UV_Helper" where
  "connect env a s =
     (case resource_tcp_handle s of
        (tcp, s1) \<Rightarrow>
          (let err = uv_tcp_connect env (env_calls s1) a;
               s2 = emit (TcpConnect tcp a) (tick s1);
               s3 = (if err \<noteq> 0 then emit (OnFailedConnect a err) s2 else s2)
           in case insert_connection env tcp a False s3 of
                (connection, s4) \<Rightarrow> start_read connection s4))"

text \<open>The loop of \<open>shutdown\<close> over \<open>tcpConnections\<close>; \<open>close_internal\<close> does not change
  the set, so the loop runs over the elements it had at the start.\<close>

fun close_all :: "int \<Rightarrow> conn_ptr list \<Rightarrow> UV_Helper \<Rightarrow> UV_Helper" where
  "close_all reason [] s = s"
| "close_all reason (c # cs) s = close_all reason cs (close_internal c reason s)"

definition shutdown :: "int \<Rightarrow> UV_Helper \<Rightarrow> UV_Helper" where
  "shutdown reason s =
     (if closing s then s
      else
        (let s1 = s\<lparr>closing := True\<rparr>;
             s2 = (if wakeup_closed s1 then s1
                   else emit WakeupClose (s1\<lparr>wakeup_closed := True\<rparr>));
             s3 = (if listener_closed s2 then s2
                   else emit ListenerClose (s2\<lparr>listener_closed := True\<rparr>))
         in close_all reason (tcpConnections s3) s3))"

fun run_deferred :: "os \<Rightarrow> deferred \<Rightarrow> UV_Helper \<Rightarrow> UV_Helper" where
  "run_deferred env (StartReadInternal c) s = start_read_internal env c s"
| "run_deferred env (CloseInternal c errcode) s = close_internal c errcode s"
| "run_deferred env (AsyncSendBody c data sz) s = async_send_body env c data sz s"
| "run_deferred env (ExternalFunc f) s = emit (DeferCb f) s"

fun handle_event :: "os \<Rightarrow> event \<Rightarrow> UV_Helper \<Rightarrow> error + UV_Helper" where
  "handle_event env (GetPeers cb) s =
     Inr (emit (GetPeersCb cb
            (map (\<lambda>c. (peer (heap s c), created_at (heap s c))) (tcpConnections s))) s)"
| "handle_event env (Connect a) s = connect env a s"
| "handle_event env (Inspect cb) s = Inr (emit (InspectCb cb) s)"
| "handle_event env (DeferFunc f) s = Inr (run_deferred env f s)"

text \<open>The loop of \<open>on_wakeup\<close> over the local queue \<open>tmp\<close>.\<close>

fun drain :: "os \<Rightarrow> event list \<Rightarrow> UV_Helper \<Rightarrow> error + UV_Helper" where
  "drain env [] s = Inr s"
| "drain env (e # tmp) s =
     (case handle_event env e s of Inl x \<Rightarrow> Inl x | Inr s' \<Rightarrow> drain env tmp s')"

text \<open>\<open>on_wakeup\<close>: take the mutex, swap \<open>events\<close> with the empty local queue, release
  the mutex at the end of the block, then run the loop.\<close>

definition on_wakeup :: "os \<Rightarrow> UV_Helper \<Rightarrow> error + UV_Helper" where
  "on_wakeup env s =
     (if mutex_locked s then Inl Deadlock
      else
        (let s1 = s\<lparr>mutex_locked := True\<rparr>;
             tmp = events s1;
             s2 = s1\<lparr>events := []\<rparr>;
             s3 = s2\<lparr>mutex_locked := False\<rparr>
         in drain env tmp s3))"

text \<open>The spec's words for the drain, to compare \<open>on_wakeup\<close> with: the commands are
  executed one after the other in the order of the list, each one starts with the mutex
  free, and each one returns.\<close>

fun executes_in_order :: "os \<Rightarrow> event list \<Rightarrow> UV_Helper \<Rightarrow> UV_Helper \<Rightarrow> bool" where
  "executes_in_order env [] s s' = (s' = s)"
| "executes_in_order env (e # es) s s' =
     (\<not> mutex_locked s \<and>
      (case handle_event env e s of
         Inl _ \<Rightarrow> False
       | Inr s1 \<Rightarrow> executes_in_order env es s1 s'))"

text \<open>A producer enqueues a list of commands, one after the other.\<close>

fun enqueue_all :: "event list \<Rightarrow> UV_Helper \<Rightarrow> error + UV_Helper" where
  "enqueue_all [] s = Inr s"
| "enqueue_all (e # es) s =
     (case enqueue e s of Inl x \<Rightarrow> Inl x | Inr s' \<Rightarrow> enqueue_all es s')"

subsection \<open>Notions used in the statements\<close>

text \<open>A connection is open when its handle is not closing. \<open>close_effects\<close> is what
  one effective \<open>close_internal\<close> does to the outside: the socket is closed, the log
  line is written, \<open>on_close\<close> is called with the error code.\<close>

definition is_open :: "UV_Helper \<Rightarrow> conn_ptr \<Rightarrow> bool" where
  "is_open s c = (\<not> h_closing (handles s (tcpHandle (heap s c))))"

definition close_effects :: "UV_Helper \<Rightarrow> conn_ptr \<Rightarrow> int \<Rightarrow> effect list" where
  "close_effects s c errcode =
     [UvClose (tcpHandle (heap s c)), ConnectionLog c errcode, OnClose c errcode]"

subsection \<open>Concrete inputs\<close>

text \<open>A little-endian host built with assertions, on which every call succeeds; the
  allocator hands out ascending addresses. The peer is 127.0.0.1, port 9186.\<close>

definition example_peer :: peername where
  "example_peer = \<lparr>pn_family = 2, pn_ip = 0x7F000001, pn_port = 9186\<rparr>"

definition example_env :: os where
  "example_env =
     \<lparr>NDEBUG = False, host_endian = Little, isolated = False,
      MAXBUFFER = 1000, EBUFFERFULL = - 100,
      uv_tcp_getpeername = (\<lambda>h. (0, example_peer)),
      uv_accept = (\<lambda>n. 0),
      uv_tcp_connect = (\<lambda>n a. 0),
      uv_read_start = (\<lambda>n. 0),
      uv_write = (\<lambda>n. 0),
      uv_write_queue_size = (\<lambda>n. 0),
      make_shared = (\<lambda>n. n),
      timestamp_now = (\<lambda>n. n)\<rparr>"

text \<open>The manager after its constructor: nothing connected, nothing queued.\<close>

definition initial_state :: UV_Helper where
  "initial_state =
     \<lparr>closing = False, wakeup_closed = False, listener_closed = False,
      tcpConnections = [], events = [], mutex_locked = False, wakeup_sent = False,
      heap = (\<lambda>c. \<lparr>peer = \<lparr>ip = 0, port = 0\<rparr>, inbound = False,
                     tcpHandle = 0, created_at = 0\<rparr>),
      handles = (\<lambda>h. \<lparr>h_closing = False, h_data = None, h_close_iter = None\<rparr>),
      next_handle = 0, env_calls = 0, trace = []\<rparr>"

text \<open>The manager after two inbound IPv4 connections have been accepted.\<close>

definition two_connections :: UV_Helper where
  "two_connections =
     (case on_listen_event example_env initial_state of
        Inl _ \<Rightarrow> initial_state
      | Inr s1 \<Rightarrow>
          (case on_listen_event example_env s1 of
             Inl _ \<Rightarrow> initial_state
           | Inr s2 \<Rightarrow> s2))"

text \<open>The manager after the second of the two connections (address 3, handle 1) was
  closed with error code 0 and its handle has finished closing.\<close>

definition second_closed :: UV_Helper where
  "second_closed =
     (case on_close_event 1 (close_internal 3 0 two_connections) of
        Inl _ \<Rightarrow> initial_state
      | Inr s \<Rightarrow> s)"

section \<open>Byte order and the endpoint of an accepted socket\<close>

lemma mask_ff: "(0xff :: 32 word) = mask 8"
  by (simp add: mask_eq_exp_minus_1)

lemma mask_ff00: "(0xff00 :: 32 word) = push_bit 8 (mask 8)"
  by (simp add: mask_eq_exp_minus_1)

lemma load_be32_network_bytes32: "load_be32 (network_bytes32 x) = x"
proof (rule bit_word_eqI)
  fix n assume "n < LENGTH(32)"
  then consider "n < 8" | "8 \<le> n \<and> n < 16" | "16 \<le> n \<and> n < 24" | "24 \<le> n \<and> n < 32"
    by fastforce
  then show "bit (load_be32 (network_bytes32 x)) n = bit x n"
    by cases (auto simp add: bit_simps dest: bit_imp_le_length)
qed

lemma bswap32_load_rev: "bswap32 (load_be32 (rev (network_bytes32 x))) = x"
proof (rule bit_word_eqI)
  fix n assume "n < LENGTH(32)"
  then consider "n < 8" | "8 \<le> n \<and> n < 16" | "16 \<le> n \<and> n < 24" | "24 \<le> n \<and> n < 32"
    by fastforce
  then show "bit (bswap32 (load_be32 (rev (network_bytes32 x)))) n = bit x n"
    by cases (auto simp add: bswap32_def mask_ff mask_ff00 bit_simps dest: bit_imp_le_length)
qed

lemma load_be16_network_bytes16: "load_be16 (network_bytes16 x) = x"
proof (rule bit_word_eqI)
  fix n assume "n < LENGTH(16)"
  then consider "n < 8" | "8 \<le> n \<and> n < 16"
    by fastforce
  then show "bit (load_be16 (network_bytes16 x)) n = bit x n"
    by cases (auto simp add: bit_simps dest: bit_imp_le_length)
qed

lemma load_be16_rev: "load_be16 (rev (network_bytes16 x)) = bswap16 x"
proof (rule bit_word_eqI)
  fix n assume "n < LENGTH(16)"
  then consider "n < 8" | "8 \<le> n \<and> n < 16"
    by fastforce
  then show "bit (load_be16 (rev (network_bytes16 x))) n = bit (bswap16 x) n"
    by cases (auto simp add: bswap16_def bit_simps dest: bit_imp_le_length)
qed

lemma network_bytes16_bswap16: "network_bytes16 (bswap16 x) = rev (network_bytes16 x)"
  apply (simp add: bswap16_def)
  apply (rule conjI)
   apply (rule bit_word_eqI)
   apply (simp add: bit_simps)
  apply (rule bit_word_eqI)
  apply (simp add: bit_simps)
  done

lemma bswap16_fixed_iff:
  "bswap16 x = x \<longleftrightarrow> (ucast (drop_bit 8 x) :: 8 word) = ucast x"
proof
  assume a: "bswap16 x = x"
  have "network_bytes16 x = rev (network_bytes16 x)"
    using network_bytes16_bswap16 [of x] by (simp only: a)
  then have "hd (network_bytes16 x) = hd (rev (network_bytes16 x))"
    by (rule arg_cong)
  then show "(ucast (drop_bit 8 x) :: 8 word) = ucast x"
    by simp
next
  assume a: "(ucast (drop_bit 8 x) :: 8 word) = ucast x"
  have "rev (network_bytes16 x) = network_bytes16 x"
    using a by simp
  then have "load_be16 (rev (network_bytes16 x)) = load_be16 (network_bytes16 x)"
    by (rule arg_cong)
  then show "bswap16 x = x"
    by (simp only: load_be16_rev load_be16_network_bytes16)
qed

lemma ntoh32_read_u32: "ntoh32 e (read_u32 e (network_bytes32 x)) = x"
  by (cases e) (simp_all only: ntoh32_def read_u32_def endian.case bswap32_load_rev load_be32_network_bytes32)

lemma read_u16_network:
  "read_u16 e (network_bytes16 x) = (case e of Big \<Rightarrow> x | Little \<Rightarrow> bswap16 x)"
  by (cases e) (simp_all only: read_u16_def endian.case load_be16_rev load_be16_network_bytes16)

lemma fill_storage_fields:
  "ss_family (fill_storage e pn) = pn_family pn"
  "sin_port (fill_storage e pn) = (case e of Big \<Rightarrow> pn_port pn | Little \<Rightarrow> bswap16 (pn_port pn))"
  "ntoh32 e (s_addr (fill_storage e pn)) = pn_ip pn"
  unfolding fill_storage_def
  by (simp_all only: sockaddr_storage.simps read_u16_network ntoh32_read_u32)

lemma get_ipv4_endpoint_ok:
  assumes "\<not> NDEBUG env" "uv_tcp_getpeername env h = (0, pn)"
  shows "get_ipv4_endpoint env h =
    Inr (if pn_family pn \<noteq> AF_INET then None
         else Some \<lparr>ip = pn_ip pn,
                    port = (case host_endian env of Big \<Rightarrow> pn_port pn | Little \<Rightarrow> bswap16 (pn_port pn))\<rparr>)"
  unfolding get_ipv4_endpoint_def Let_def
  using assms by (simp only: fill_storage_fields) simp

lemma set_set_insert: "set (set_insert x xs) = insert x (set xs)"
  by (auto simp add: set_insert_def set_insort_key)

lemma set_insert_not_Nil: "set_insert x xs \<noteq> []"
  using set_set_insert [of x xs] by (cases "set_insert x xs") auto


lemma on_listen_event_ipv4:
  assumes "\<not> isolated env" "\<not> NDEBUG env" "uv_accept env (env_calls s) = 0"
    and "uv_tcp_getpeername env (next_handle s) = (0, pn)" "pn_family pn = AF_INET"
  shows "on_listen_event env s =
     (case insert_connection env (next_handle s)
             \<lparr>ip = pn_ip pn,
              port = (case host_endian env of Big \<Rightarrow> pn_port pn | Little \<Rightarrow> bswap16 (pn_port pn))\<rparr>
             True (emit (TcpAccept (next_handle s)) (tick (snd (resource_tcp_handle s)))) of
        (connection, s3) \<Rightarrow> Inr (emit (Authenticate connection) s3))"
  using assms
  by (simp add: on_listen_event_def resource_tcp_handle_def get_ipv4_endpoint_ok)

section \<open>The listener\<close>

text \<open>
  Claim C3. The endpoint stored for an accepted IPv4 connection, which \<open>GetPeers\<close>
  later reports, has the peer's IP in host order (the number the peer has), while its
  port is the raw \<open>sin_port\<close>: on a little-endian host the two bytes of the peer's port
  swapped, which differs from the peer's port exactly when the two bytes differ.
\<close>

theorem accepted_peer_port_raw:
  assumes "\<not> isolated env" "\<not> NDEBUG env" "uv_accept env (env_calls s) = 0"
    and "uv_tcp_getpeername env (next_handle s) = (0, pn)" "pn_family pn = AF_INET"
    and "host_endian env = Little"
  shows "\<exists>s'. on_listen_event env s = Inr s' \<and>
     make_shared env (Suc (env_calls s)) \<in> set (tcpConnections s') \<and>
     peer (heap s' (make_shared env (Suc (env_calls s)))) =
       \<lparr>ip = pn_ip pn, port = bswap16 (pn_port pn)\<rparr> \<and>
     handle_event env (GetPeers cb) s' =
       Inr (emit (GetPeersCb cb
              (map (\<lambda>c. (peer (heap s' c), created_at (heap s' c))) (tcpConnections s'))) s') \<and>
     (bswap16 (pn_port pn) \<noteq> pn_port pn \<longleftrightarrow>
        (ucast (drop_bit 8 (pn_port pn)) :: 8 word) \<noteq> ucast (pn_port pn))"
  using assms
  by (simp add: on_listen_event_ipv4 insert_connection_def resource_tcp_handle_def
        emit_def tick_def Let_def set_set_insert bswap16_fixed_iff)

theorem accepted_peer_port_raw_witness:
  "\<not> isolated example_env \<and> \<not> NDEBUG example_env \<and>
   uv_accept example_env (env_calls initial_state) = 0 \<and>
   uv_tcp_getpeername example_env (next_handle initial_state) = (0, example_peer) \<and>
   pn_family example_peer = AF_INET \<and> host_endian example_env = Little \<and>
   (\<exists>s'. on_listen_event example_env initial_state = Inr s' \<and>
      peer (heap s' 1) = \<lparr>ip = 0x7F000001, port = 57891\<rparr>)"
  using accepted_peer_port_raw [of example_env initial_state example_peer]
  by (auto simp add: example_env_def initial_state_def example_peer_def AF_INET_def bswap16_def)



text \<open>
  Claim C9. With the isolated flag set, the handler of a listen event returns at once:
  the state, and with it the set of connections and the trace of calls, is unchanged
  (nothing accepted, nothing inserted, \<open>authenticate\<close> not called).
\<close>

theorem isolated_refuses_accept:
  "isolated env \<Longrightarrow> on_listen_event env s = Inr s"
  by (simp add: on_listen_event_def)

theorem isolated_refuses_accept_witness:
  "isolated (example_env\<lparr>isolated := True\<rparr>) \<and>
   on_listen_event (example_env\<lparr>isolated := True\<rparr>) initial_state = Inr initial_state"
  using isolated_refuses_accept [of "example_env\<lparr>isolated := True\<rparr>" initial_state]
  by simp

text \<open>
  Claim C10. \<open>uv_tcp_getpeername\<close> runs only as the argument of \<open>assert\<close>:
  \<open>get_ipv4_endpoint\<close> returns a result (an endpoint, or "not IPv4") exactly when the
  assertion is compiled in and the call returns 0. Otherwise it reads storage that was
  never written, or aborts.
\<close>

theorem get_ipv4_endpoint_meaningful_iff:
  "(\<exists>r. get_ipv4_endpoint env h = Inr r) \<longleftrightarrow>
     (\<not> NDEBUG env \<and> fst (uv_tcp_getpeername env h) = 0)"
  unfolding get_ipv4_endpoint_def Let_def
  by (cases "uv_tcp_getpeername env h") simp

theorem get_ipv4_endpoint_meaningful_iff_witness:
  "(\<exists>r. get_ipv4_endpoint example_env 0 = Inr r) \<and>
   \<not> (\<exists>r. get_ipv4_endpoint (example_env\<lparr>NDEBUG := True\<rparr>) 0 = Inr r)"
  using get_ipv4_endpoint_meaningful_iff [of example_env 0]
    get_ipv4_endpoint_meaningful_iff [of "example_env\<lparr>NDEBUG := True\<rparr>" 0]
  by (simp add: example_env_def)

section \<open>Closing a connection\<close>

lemma two_connections_eval:
  "tcpConnections two_connections = [1, 3]"
  "trace two_connections = [TcpAccept 0, Authenticate 1, TcpAccept 1, Authenticate 3]"
  "tcpHandle (heap two_connections (Suc 0)) = 0"
  "tcpHandle (heap two_connections 3) = 1"
  "h_close_iter (handles two_connections 0) = Some 1"
  "h_close_iter (handles two_connections (Suc 0)) = Some 1"
  "h_data (handles two_connections (Suc 0)) = Some 3"
  "h_data (handles two_connections 0) = Some 1"
  "\<not> h_closing (handles two_connections 0)"
  "\<not> h_closing (handles two_connections (Suc 0))"
  "\<not> closing two_connections"
  "\<not> wakeup_closed two_connections"
  "\<not> listener_closed two_connections"
  "\<not> mutex_locked two_connections"
  "events two_connections = []"
  by (simp_all add: two_connections_def on_listen_event_def resource_tcp_handle_def
      get_ipv4_endpoint_def fill_storage_def insert_connection_def set_insert_def
      emit_def tick_def example_env_def example_peer_def initial_state_def AF_INET_def Let_def)

lemma close_internal_closing:
  "\<not> is_open s c \<Longrightarrow> close_internal c e s = s"
  by (simp add: close_internal_def is_open_def)

lemma close_internal_open:
  "is_open s c \<Longrightarrow> close_internal c e s =
     s\<lparr>handles := (handles s)(tcpHandle (heap s c) :=
          (handles s (tcpHandle (heap s c)))\<lparr>h_closing := True\<rparr>),
       trace := trace s @ close_effects s c e\<rparr>"
  by (simp add: close_internal_def is_open_def handle_close_def emit_def close_effects_def Let_def)

lemma close_internal_not_open: "\<not> is_open (close_internal c e s) c"
  by (cases "is_open s c") (simp_all add: close_internal_closing close_internal_open is_open_def)

lemma close_internal_fields:
  "heap (close_internal c e s) = heap s"
  "tcpConnections (close_internal c e s) = tcpConnections s"
  "events (close_internal c e s) = events s"
  "mutex_locked (close_internal c e s) = mutex_locked s"
  "closing (close_internal c e s) = closing s"
  "wakeup_closed (close_internal c e s) = wakeup_closed s"
  "listener_closed (close_internal c e s) = listener_closed s"
  by (cases "is_open s c"; simp add: close_internal_closing close_internal_open)+

lemma close_internal_trace:
  "trace (close_internal c e s) = trace s @ (if is_open s c then close_effects s c e else [])"
  by (cases "is_open s c") (simp_all add: close_internal_closing close_internal_open)

lemma close_internal_idem:
  "close_internal c e2 (close_internal c e1 s) = close_internal c e1 s"
  by (rule close_internal_closing) (rule close_internal_not_open)

lemma close_internal_other:
  "tcpHandle (heap s c') \<noteq> tcpHandle (heap s c) \<Longrightarrow>
     is_open (close_internal c e s) c' = is_open s c'"
  by (cases "is_open s c") (simp_all add: close_internal_closing close_internal_open is_open_def)

lemma close_internal_mono:
  "\<not> is_open s c' \<Longrightarrow> \<not> is_open (close_internal c e s) c'"
  by (cases "is_open s c") (simp_all add: close_internal_closing close_internal_open is_open_def)

lemma close_effects_heap: "heap s' = heap s \<Longrightarrow> close_effects s' c e = close_effects s c e"
  by (simp add: close_effects_def)

lemma close_all_fields:
  "heap (close_all r cs s) = heap s"
  "tcpConnections (close_all r cs s) = tcpConnections s"
  "closing (close_all r cs s) = closing s"
  by (induction cs arbitrary: s) (simp_all add: close_internal_fields)

lemma close_all_mono: "\<not> is_open s c \<Longrightarrow> \<not> is_open (close_all r cs s) c"
  by (induction cs arbitrary: s) (simp_all add: close_internal_mono)

lemma close_all_not_open: "c \<in> set cs \<Longrightarrow> \<not> is_open (close_all r cs s) c"
proof (induction cs arbitrary: s)
  case Nil
  then show ?case by simp
next
  case (Cons a cs)
  show ?case
  proof (cases "c = a")
    case True
    have "\<not> is_open (close_internal a r s) a"
      by (rule close_internal_not_open)
    then have "\<not> is_open (close_all r cs (close_internal a r s)) a"
      by (rule close_all_mono)
    with True show ?thesis by simp
  next
    case False
    with Cons.prems have "c \<in> set cs" by simp
    then show ?thesis by (simp add: Cons.IH)
  qed
qed

lemma close_all_trace:
  assumes "distinct cs" "inj_on (\<lambda>c. tcpHandle (heap s c)) (set cs)"
  shows "trace (close_all r cs s) =
     trace s @ concat (map (\<lambda>c. close_effects s c r) (filter (is_open s) cs))"
  using assms
proof (induction cs arbitrary: s)
  case Nil
  then show ?case by simp
next
  case (Cons a cs)
  let ?s1 = "close_internal a r s"
  have heap1: "heap ?s1 = heap s"
    by (rule close_internal_fields)
  have d: "distinct cs" and a: "a \<notin> set cs"
    using Cons.prems(1) by simp_all
  have inj: "inj_on (\<lambda>c. tcpHandle (heap ?s1 c)) (set cs)"
    using Cons.prems(2) by (simp add: heap1)
  have other: "is_open ?s1 c = is_open s c" if "c \<in> set cs" for c
  proof (rule close_internal_other)
    from that a have "c \<noteq> a" by auto
    with Cons.prems(2) that show "tcpHandle (heap s c) \<noteq> tcpHandle (heap s a)"
      by (auto simp add: inj_on_def)
  qed
  have f: "filter (is_open ?s1) cs = filter (is_open s) cs"
    by (rule filter_cong) (simp_all add: other)
  have m: "map (\<lambda>c. close_effects ?s1 c r) xs = map (\<lambda>c. close_effects s c r) xs" for xs
    by (simp add: close_effects_heap [OF heap1])
  have "trace (close_all r (a # cs) s) = trace (close_all r cs ?s1)"
    by simp
  also have "\<dots> = trace ?s1 @ concat (map (\<lambda>c. close_effects ?s1 c r) (filter (is_open ?s1) cs))"
    by (rule Cons.IH [OF d inj])
  also have "\<dots> = trace ?s1 @ concat (map (\<lambda>c. close_effects s c r) (filter (is_open s) cs))"
    by (simp only: f m)
  finally show ?case
    by (simp add: close_internal_trace)
qed

section \<open>The queue\<close>

lemma start_read_internal_mutex:
  "mutex_locked (start_read_internal env c s) = mutex_locked s"
  by (simp add: start_read_internal_def Let_def close_internal_fields emit_def tick_def)

lemma async_send_body_mutex:
  "mutex_locked (async_send_body env c d n s) = mutex_locked s"
  by (simp add: async_send_body_def Let_def close_internal_fields emit_def tick_def)

lemma run_deferred_mutex: "mutex_locked (run_deferred env f s) = mutex_locked s"
  by (cases f)
    (simp_all add: start_read_internal_mutex async_send_body_mutex close_internal_fields emit_def)

lemma insert_connection_mutex:
  "mutex_locked (snd (insert_connection env h p i s)) = mutex_locked s"
  by (simp add: insert_connection_def Let_def tick_def)

lemma connect_unlocked:
  assumes "\<not> mutex_locked s"
  shows "\<exists>s'. connect env a s = Inr s' \<and> \<not> mutex_locked s'"
  using assms
  by (simp add: connect_def resource_tcp_handle_def Let_def start_read_def async_call_def
      enqueue_def insert_connection_def emit_def tick_def split: prod.splits)

lemma handle_event_unlocked:
  assumes "\<not> mutex_locked s"
  shows "\<exists>s'. handle_event env e s = Inr s' \<and> \<not> mutex_locked s'"
proof (cases e)
  case (GetPeers cb)
  with assms show ?thesis by (simp add: emit_def)
next
  case (Connect a)
  with connect_unlocked [OF assms] show ?thesis by simp
next
  case (Inspect cb)
  with assms show ?thesis by (simp add: emit_def)
next
  case (DeferFunc f)
  with assms show ?thesis by (simp add: run_deferred_mutex)
qed

lemma drain_executes_in_order:
  assumes "\<not> mutex_locked s"
  shows "\<exists>s'. drain env q s = Inr s' \<and> executes_in_order env q s s' \<and> \<not> mutex_locked s'"
  using assms
proof (induction q arbitrary: s)
  case Nil
  then show ?case by simp
next
  case (Cons e q)
  from handle_event_unlocked [OF Cons.prems]
  obtain s1 where h: "handle_event env e s = Inr s1" and u: "\<not> mutex_locked s1"
    by blast
  from Cons.IH [OF u]
  obtain s' where "drain env q s1 = Inr s'" "executes_in_order env q s1 s'" "\<not> mutex_locked s'"
    by blast
  with h Cons.prems show ?case by simp
qed

lemma enqueue_all_unlocked:
  assumes "\<not> mutex_locked s"
  shows "\<exists>s1. enqueue_all cmds s = Inr s1 \<and> events s1 = events s @ cmds \<and>
     \<not> mutex_locked s1 \<and> trace s1 = trace s"
  using assms
proof (induction cmds arbitrary: s)
  case Nil
  then show ?case by simp
next
  case (Cons e cmds)
  let ?s = "s\<lparr>events := events s @ [e], wakeup_sent := True\<rparr>"
  have e: "enqueue e s = Inr ?s"
    using Cons.prems by (simp add: enqueue_def)
  have "\<not> mutex_locked ?s"
    using Cons.prems by simp
  from Cons.IH [OF this]
  obtain s1 where "enqueue_all cmds ?s = Inr s1" "events s1 = events ?s @ cmds"
    "\<not> mutex_locked s1" "trace s1 = trace ?s"
    by blast
  with e show ?case by simp
qed

lemma on_wakeup_unlocked:
  assumes "\<not> mutex_locked s"
  shows "on_wakeup env s = drain env (events s) (s\<lparr>events := []\<rparr>)"
proof -
  have eq: "s\<lparr>events := [], mutex_locked := False\<rparr> = s\<lparr>events := []\<rparr>"
    using assms by (cases s) simp
  have "on_wakeup env s = drain env (events s) (s\<lparr>events := [], mutex_locked := False\<rparr>)"
    using assms by (simp add: on_wakeup_def Let_def)
  then show ?thesis
    by (simp only: eq)
qed

section \<open>Sending, connecting\<close>

lemma close_enqueues:
  "\<not> mutex_locked s \<Longrightarrow>
     close c e s = Inr (s\<lparr>events := events s @ [DeferFunc (CloseInternal c e)], wakeup_sent := True\<rparr>)"
  by (simp add: close_def async_call_def enqueue_def)

lemma is_open_cong:
  "heap s' = heap s \<Longrightarrow> handles s' = handles s \<Longrightarrow> is_open s' c = is_open s c"
  by (simp add: is_open_def)





lemma connect_always_inserts:
  assumes "\<not> mutex_locked s"
  shows "\<exists>s'. connect env a s = Inr s' \<and>
     make_shared env (Suc (env_calls s)) \<in> set (tcpConnections s') \<and>
     events s' = events s @ [DeferFunc (StartReadInternal (make_shared env (Suc (env_calls s))))] \<and>
     trace s' = trace s @ TcpConnect (next_handle s) a #
       (if uv_tcp_connect env (env_calls s) a \<noteq> 0
        then [OnFailedConnect a (uv_tcp_connect env (env_calls s) a)] else [])"
  using assms
  by (simp add: connect_def resource_tcp_handle_def Let_def start_read_def async_call_def
      enqueue_def insert_connection_def emit_def tick_def set_set_insert)

lemma set_insert_distinct: "distinct xs \<Longrightarrow> distinct (set_insert x xs)"
  by (simp add: set_insert_def distinct_insort)

section \<open>The claims about closing, sending, the queue and connecting\<close>

text \<open>
  Claim C4. \<open>close\<close> is idempotent. \<open>close_internal\<close> after \<open>close_internal\<close> on the
  same connection changes nothing, whatever the two error codes. Two calls of \<open>close\<close> on
  an open connection queue two closures; the next drain closes the socket once, writes
  one log line and calls \<open>on_close\<close> once, with the error code of the first call.
\<close>

theorem close_twice_closes_once:
  assumes "\<not> mutex_locked s" "events s = []" "is_open s c"
  shows "close_internal c e2 (close_internal c e1 s) = close_internal c e1 s \<and>
    (\<exists>s1 s2 s'. close c e1 s = Inr s1 \<and> close c e2 s1 = Inr s2 \<and>
       on_wakeup env s2 = Inr s' \<and>
       trace s' = trace s @ close_effects s c e1 \<and> \<not> is_open s' c)"
proof -
  let ?s1 = "s\<lparr>events := [DeferFunc (CloseInternal c e1)], wakeup_sent := True\<rparr>"
  let ?s2 = "s\<lparr>events := [DeferFunc (CloseInternal c e1), DeferFunc (CloseInternal c e2)],
               wakeup_sent := True\<rparr>"
  let ?s' = "close_internal c e1 (?s2\<lparr>events := []\<rparr>)"
  have c1: "close c e1 s = Inr ?s1"
    using assms(1,2) by (simp add: close_enqueues)
  have c2: "close c e2 ?s1 = Inr ?s2"
    using assms(1) by (simp add: close_enqueues)
  have u: "\<not> mutex_locked ?s2"
    using assms(1) by simp
  have op: "is_open (?s2\<lparr>events := []\<rparr>) c"
    using assms(3) by (simp add: is_open_def)
  have "drain env (events ?s2) (?s2\<lparr>events := []\<rparr>) = Inr ?s'"
    by (simp add: close_internal_idem)
  then have w: "on_wakeup env ?s2 = Inr ?s'"
    by (simp only: on_wakeup_unlocked [OF u])
  have "trace ?s' = trace (?s2\<lparr>events := []\<rparr>) @ close_effects (?s2\<lparr>events := []\<rparr>) c e1"
    using op by (simp only: close_internal_trace if_True)
  then have t: "trace ?s' = trace s @ close_effects s c e1"
    by (simp add: close_effects_def)
  have n: "\<not> is_open ?s' c"
    by (rule close_internal_not_open)
  have "close_internal c e2 (close_internal c e1 s) = close_internal c e1 s"
    by (rule close_internal_idem)
  with c1 c2 w t n show ?thesis
    by blast
qed

theorem close_twice_closes_once_witness:
  "\<not> mutex_locked two_connections \<and> events two_connections = [] \<and> is_open two_connections 3 \<and>
   (\<exists>s1 s2 s'. close 3 (- 4095) two_connections = Inr s1 \<and> close 3 0 s1 = Inr s2 \<and>
       on_wakeup example_env s2 = Inr s' \<and>
       trace s' = trace two_connections @ [UvClose 1, ConnectionLog 3 (- 4095), OnClose 3 (- 4095)])"
  using close_twice_closes_once [of two_connections 3 0 "- 4095" example_env]
  by (auto simp add: two_connections_eval is_open_def close_effects_def)



text \<open>
  What \<open>shutdown\<close> does to the members of the set: the first call closes the wakeup
  handle and the listener, then closes every member that is still open, each exactly
  once and with the given reason; afterwards no member is open and the closing flag is
  set. A second call, with any reason, returns the state unchanged. This speaks of the
  members of \<open>tcpConnections\<close> only, not of every open connection.
\<close>

lemma shutdown_closes_set_members:
  assumes "\<not> closing s" "\<not> wakeup_closed s" "\<not> listener_closed s"
    and "distinct (tcpConnections s)"
    and "inj_on (\<lambda>c. tcpHandle (heap s c)) (set (tcpConnections s))"
  shows "trace (shutdown r s) =
           trace s @ [WakeupClose, ListenerClose] @
           concat (map (\<lambda>c. close_effects s c r) (filter (is_open s) (tcpConnections s))) \<and>
         (\<forall>c \<in> set (tcpConnections s). \<not> is_open (shutdown r s) c) \<and>
         closing (shutdown r s) \<and>
         shutdown r' (shutdown r s) = shutdown r s"
proof -
  let ?s3 = "s\<lparr>closing := True, wakeup_closed := True, listener_closed := True,
               trace := trace s @ [WakeupClose, ListenerClose]\<rparr>"
  have sh: "shutdown r s = close_all r (tcpConnections s) ?s3"
    using assms(1-3) by (simp add: shutdown_def emit_def Let_def)
  have op: "is_open ?s3 = is_open s"
    by (rule ext) (simp add: is_open_def)
  have ef: "(\<lambda>c. close_effects ?s3 c r) = (\<lambda>c. close_effects s c r)"
    by (rule ext) (simp add: close_effects_def)
  have "trace (close_all r (tcpConnections s) ?s3) =
      trace ?s3 @ concat (map (\<lambda>c. close_effects ?s3 c r) (filter (is_open ?s3) (tcpConnections s)))"
    by (rule close_all_trace) (simp_all add: assms(4,5))
  then have t: "trace (shutdown r s) =
           trace s @ [WakeupClose, ListenerClose] @
           concat (map (\<lambda>c. close_effects s c r) (filter (is_open s) (tcpConnections s)))"
    by (simp only: sh op ef) simp
  have c: "closing (shutdown r s)"
    by (simp add: sh close_all_fields)
  then have i: "shutdown r' (shutdown r s) = shutdown r s"
    by (simp add: shutdown_def)
  have n: "\<forall>c \<in> set (tcpConnections s). \<not> is_open (shutdown r s) c"
    by (simp add: sh close_all_not_open)
  from t n c i show ?thesis by blast
qed

lemma shutdown_closes_set_members_example:
  "\<not> closing two_connections \<and> \<not> wakeup_closed two_connections \<and>
   \<not> listener_closed two_connections \<and> distinct (tcpConnections two_connections) \<and>
   inj_on (\<lambda>c. tcpHandle (heap two_connections c)) (set (tcpConnections two_connections)) \<and>
   trace (shutdown 0 two_connections) =
     trace two_connections @
     [WakeupClose, ListenerClose,
      UvClose 0, ConnectionLog 1 0, OnClose 1 0,
      UvClose 1, ConnectionLog 3 0, OnClose 3 0] \<and>
   shutdown 0 (shutdown 0 two_connections) = shutdown 0 two_connections"
  using shutdown_closes_set_members [of two_connections 0 0]
  by (simp add: two_connections_eval is_open_def close_effects_def)

lemma second_closed_eval:
  "tcpConnections second_closed = [3]"
  "trace second_closed =
     [TcpAccept 0, Authenticate 1, TcpAccept 1, Authenticate 3,
      UvClose 1, ConnectionLog 3 0, OnClose 3 0]"
  "tcpHandle (heap second_closed (Suc 0)) = 0"
  "tcpHandle (heap second_closed 3) = 1"
  "h_data (handles second_closed 0) = Some 1"
  "\<not> h_closing (handles second_closed 0)"
  "h_closing (handles second_closed (Suc 0))"
  "\<not> closing second_closed"
  "\<not> wakeup_closed second_closed"
  "\<not> listener_closed second_closed"
  by (simp_all add: second_closed_def two_connections_eval close_internal_def
      handle_close_def emit_def on_close_event_def set_erase_def Let_def)

text \<open>
  Claim C6, at a failing input. The two calls of \<open>shutdown\<close> are safe and the second one
  changes nothing, as the claim says. But \<open>shutdown\<close> closes the members of
  \<open>tcpConnections\<close>, and after the close of the second connection the set has lost the
  entry of the first one (\<open>insert_connection\<close> stores \<open>begin()\<close> for the handler):
  the first connection, at address 1 with handle 0, is open and its handle still points
  to it, yet it is not in the set. \<open>shutdown 0\<close> closes the wakeup handle and the
  listener and nothing else; the open connection stays open, with no socket close and no
  \<open>on_close\<close>.
\<close>

theorem shutdown_misses_erased_connection:
  "tcpConnections second_closed = [3] \<and>
   is_open second_closed 1 \<and>
   h_data (handles second_closed 0) = Some 1 \<and>
   \<not> closing second_closed \<and>
   trace (shutdown 0 second_closed) = trace second_closed @ [WakeupClose, ListenerClose] \<and>
   is_open (shutdown 0 second_closed) 1 \<and>
   closing (shutdown 0 second_closed) \<and>
   shutdown 0 (shutdown 0 second_closed) = shutdown 0 second_closed"
  by (simp add: second_closed_eval is_open_def shutdown_def close_internal_def
      handle_close_def emit_def Let_def)

text \<open>
  Claim C7. A producer enqueues the commands \<open>cmds\<close>; they are appended to the queue in
  order. The next \<open>on_wakeup\<close> returns, having emptied the queue and executed every
  queued command in queue order, each one started with the mutex free, and leaves the
  mutex free. (A command that enqueues from the loop thread, as \<open>Connect\<close> does through
  \<open>start_read\<close>, would never return if the mutex were held while it runs.)
\<close>

theorem on_wakeup_fifo:
  assumes "\<not> mutex_locked s"
  shows "\<exists>s1 s'. enqueue_all cmds s = Inr s1 \<and> events s1 = events s @ cmds \<and>
     on_wakeup env s1 = Inr s' \<and>
     executes_in_order env (events s @ cmds) (s1\<lparr>events := []\<rparr>) s' \<and>
     \<not> mutex_locked s'"
proof -
  from enqueue_all_unlocked [OF assms]
  obtain s1 where q: "enqueue_all cmds s = Inr s1" "events s1 = events s @ cmds"
    and u: "\<not> mutex_locked s1"
    by blast
  have "\<not> mutex_locked (s1\<lparr>events := []\<rparr>)"
    using u by simp
  from drain_executes_in_order [OF this]
  obtain s' where "drain env (events s1) (s1\<lparr>events := []\<rparr>) = Inr s'"
    "executes_in_order env (events s1) (s1\<lparr>events := []\<rparr>) s'" "\<not> mutex_locked s'"
    by blast
  with q on_wakeup_unlocked [OF u] show ?thesis
    by auto
qed

theorem on_wakeup_fifo_witness:
  "\<not> mutex_locked initial_state \<and>
   (\<exists>s1 s'. enqueue_all [DeferFunc (ExternalFunc 7), Inspect 8, GetPeers 9] initial_state = Inr s1 \<and>
      events s1 = [DeferFunc (ExternalFunc 7), Inspect 8, GetPeers 9] \<and>
      on_wakeup example_env s1 = Inr s' \<and>
      trace s' = [DeferCb 7, InspectCb 8, GetPeersCb 9 []] \<and> events s' = [])"
  using on_wakeup_fifo [of initial_state "[DeferFunc (ExternalFunc 7), Inspect 8, GetPeers 9]" example_env]
  by (auto simp add: initial_state_def enqueue_def on_wakeup_def emit_def Let_def)

text \<open>
  Claim C1, at a failing input. The connect call returns the error -101 for the address
  10.0.0.1:1. \<open>on_failed_connect\<close> is called with that error, as the claim says; but
  \<open>connect\<close> then goes on: the connection is inserted into the set, the handle gets
  its handlers, and \<open>start_read\<close> is queued. \<open>connect_always_inserts\<close> above shows
  the same for every state and every answer of the connect call.
\<close>

theorem connect_failure_still_inserts:
  "\<exists>s'. connect (example_env\<lparr>uv_tcp_connect := (\<lambda>n a. - 101)\<rparr>)
            \<lparr>ip = 0x0A000001, port = 1\<rparr> initial_state = Inr s' \<and>
     trace s' = [TcpConnect 0 \<lparr>ip = 0x0A000001, port = 1\<rparr>,
                 OnFailedConnect \<lparr>ip = 0x0A000001, port = 1\<rparr> (- 101)] \<and>
     tcpConnections s' = [1] \<and>
     h_data (handles s' 0) = Some 1 \<and>
     events s' = [DeferFunc (StartReadInternal 1)]"
  by (simp add: connect_def resource_tcp_handle_def Let_def start_read_def async_call_def
      enqueue_def insert_connection_def emit_def tick_def set_insert_def
      example_env_def initial_state_def)

text \<open>
  Claim C2, at a failing input. Two connections are accepted, at the addresses 1 and 3,
  with the handles 0 and 1. \<open>insert_connection\<close> captures \<open>begin()\<close>, which for the
  second connection is the node of the first. When the handle of the second connection
  finishes closing, the entry of the first connection, still open, is erased, and the
  closed second connection stays in the set. When the handle of the first connection
  closes later, its handler erases through an iterator whose node is gone. (The addresses
  ascend with the insertions, so the outcome is the same for a container that keeps the
  order of insertion.)
\<close>

theorem close_event_erases_begin:
  "tcpConnections two_connections = [1, 3] \<and>
   tcpHandle (heap two_connections 3) = 1 \<and>
   is_open two_connections 1 \<and>
   (\<exists>s'. on_close_event 1 (close_internal 3 0 two_connections) = Inr s' \<and>
      tcpConnections s' = [3] \<and> is_open s' 1 \<and> \<not> is_open s' 3 \<and>
      on_close_event 0 (close_internal 1 0 s') = Inl InvalidIterator)"
  by (simp add: two_connections_eval is_open_def close_internal_def handle_close_def emit_def
      on_close_event_def set_erase_def Let_def)

end
